theory Spec2Isabelle
  imports Complex_Main
begin

section \<open>Python values and dictionaries\<close>

text \<open>
  The extractor's dictionaries map string keys to a scalar (a string or an integer) or
  to a list of scalars. A Python dict keeps insertion order, and the query builder
  iterates in that order, so a dict is an association list with distinct keys.
\<close>

datatype scalar = PyStr string | PyInt int

datatype pyval = Scalar scalar | ListV "scalar list"

type_synonym pydict = "(string \<times> pyval) list"

text \<open>Assignment \<open>d[k] = v\<close>: an existing key keeps its position, a new key goes last.\<close>

fun dict_set :: "string \<Rightarrow> pyval \<Rightarrow> pydict \<Rightarrow> pydict" where
  "dict_set k v [] = [(k, v)]"
| "dict_set k v ((k', v') # d) =
     (if k' = k then (k, v) # d else (k', v') # dict_set k v d)"

subsection \<open>Formatting, as an f-string does\<close>

definition digit_char :: "nat \<Rightarrow> char" where
  "digit_char d = char_of (48 + d)"

fun str_nat :: "nat \<Rightarrow> string" where
  "str_nat n = (if n < 10 then [digit_char n] else str_nat (n div 10) @ [digit_char (n mod 10)])"

declare str_nat.simps [simp del]

definition str_int :: "int \<Rightarrow> string" where
  "str_int i = (if i < 0 then CHR ''-'' # str_nat (nat (- i)) else str_nat (nat i))"

fun py_str :: "scalar \<Rightarrow> string" where
  "py_str (PyStr s) = s"
| "py_str (PyInt i) = str_int i"

text \<open>\<open>sep.join(parts)\<close>\<close>

fun join :: "string \<Rightarrow> string list \<Rightarrow> string" where
  "join sep [] = []"
| "join sep [x] = x"
| "join sep (x # y # ys) = x @ sep @ join sep (y # ys)"

section \<open>Query builder\<close>

text \<open>
  \<open>api_query_builder\<close> of \<open>src/extractor.py\<close>. The two loops append to
  \<open>filter_parts\<close>: the inner one runs over the elements of a list value, the outer one
  over the items of the filter dict. The dicts are only read.
\<close>

fun append_items :: "string \<Rightarrow> scalar list \<Rightarrow> string list \<Rightarrow> string list" where
  "append_items key [] filter_parts = filter_parts"
| "append_items key (item # val) filter_parts =
     append_items key val (filter_parts @ [key @ '':'' @ py_str item])"

fun build_filter_parts :: "pydict \<Rightarrow> string list \<Rightarrow> string list" where
  "build_filter_parts [] filter_parts = filter_parts"
| "build_filter_parts ((key, ListV val) # query_filters) filter_parts =
     build_filter_parts query_filters (append_items key val filter_parts)"
| "build_filter_parts ((key, Scalar val) # query_filters) filter_parts =
     build_filter_parts query_filters (filter_parts @ [key @ '':'' @ py_str val])"

text \<open>
  The API parameters are formatted with \<open>f"{key}={value}"\<close>. A list value is printed
  as Python prints a list, with the \<open>repr\<close> of each element: a string between single
  quotes (exact for a string without quotes, backslashes and control characters), an
  integer as it is. The extractor's own parameters are scalars.
\<close>

fun py_repr :: "scalar \<Rightarrow> string" where
  "py_repr (PyStr s) = [CHR 0x27] @ s @ [CHR 0x27]"
| "py_repr (PyInt i) = str_int i"

fun py_str_val :: "pyval \<Rightarrow> string" where
  "py_str_val (Scalar s) = py_str s"
| "py_str_val (ListV xs) = ''['' @ join '', '' (map py_repr xs) @ '']''"

definition api_query_builder :: "string \<Rightarrow> pydict \<Rightarrow> pydict \<Rightarrow> string" where
  "api_query_builder base_url query_filters api_params =
     (let filter_parts = build_filter_parts query_filters [];
          filters = join ''+'' filter_parts;
          params = join ''&'' (map (\<lambda>(key, value). key @ ''='' @ py_str_val value) api_params)
      in base_url @ ''?q='' @ filters @ ''&'' @ params)"

text \<open>Module constants of \<open>config.py\<close> and \<open>extractor.py\<close>.\<close>

definition BASE_URL :: string where
  "BASE_URL = ''https://api.github.com/search/repositories''"

definition DEFAULT_Q_FILTERS_init :: pydict where
  "DEFAULT_Q_FILTERS_init =
     [(''is'', Scalar (PyStr ''public'')),
      (''archived'', Scalar (PyStr ''false'')),
      (''size'', Scalar (PyStr ''>=500'')),
      (''stars'', Scalar (PyStr ''>=1'')),
      (''forks'', Scalar (PyStr ''>=1'')),
      (''has'', ListV [PyStr ''readme'', PyStr ''license''])]"

definition DEFAULT_API_PARAMS_init :: pydict where
  "DEFAULT_API_PARAMS_init =
     [(''sort'', Scalar (PyStr ''created'')),
      (''order'', Scalar (PyStr ''desc'')),
      (''per_page'', Scalar (PyInt 100))]"

section \<open>The outside world\<close>

text \<open>
  What \<open>requests.get\<close> followed by \<open>raise_for_status\<close> and \<open>json\<close> can observe of one
  HTTP exchange. \<open>NoResponse\<close> stands for every exception of \<open>requests.get\<close> itself
  (connection failure, timeout, invalid URL): none of them is an \<open>HTTPError\<close>.
  A body is not JSON, JSON that is not a mapping, or a mapping with or without the
  \<open>items\<close> key, whose value is a list. The items themselves are left abstract for
  the extractor.
\<close>

datatype 'a payload = NotJson | NotMapping | Mapping "'a list option"

datatype 'a response = NoResponse | Response nat "'a payload"

text \<open>
  The server answers the \<open>n\<close>-th request of the run (counted from 0) for a URL.
\<close>

type_synonym 'a server = "nat \<Rightarrow> string \<Rightarrow> 'a response"

text \<open>
  The state the extractor acts on: the dict objects on the heap (an address is an index;
  a new object goes last), the URLs requested so far, and the arguments of every
  \<open>time.sleep\<close> so far, in seconds.
\<close>

record world =
  heap :: "pydict list"
  requests :: "string list"
  slept :: "rat list"

datatype exn = HTTPError nat | KeyError string | TypeError | DateParseError | DBError

definition http_get :: "'a server \<Rightarrow> string \<Rightarrow> world \<Rightarrow> 'a response \<times> world" where
  "http_get server url w =
     (server (length (requests w)) url, w\<lparr>requests := requests w @ [url]\<rparr>)"

definition sleep :: "rat \<Rightarrow> world \<Rightarrow> world" where
  "sleep secs w = w\<lparr>slept := slept w @ [secs]\<rparr>"

section \<open>Page fetcher\<close>

text \<open>
  \<open>fetch_page\<close> of \<open>src/extractor.py\<close>. The \<open>for\<close> loop runs over
  \<open>range(1, max_retries + 1)\<close>, here the list of the attempts still to make. Each
  branch is one path of the \<open>try\<close> statement, in the order the source takes them:
  an exception of \<open>requests.get\<close> (caught by \<open>except Exception\<close> or
  \<open>except ValueError\<close>, both returning the empty list); \<open>raise_for_status\<close>,
  which raises \<open>HTTPError\<close> for a status from 400 to 599; a body that is not JSON
  (\<open>ValueError\<close>); a body that is not a mapping (\<open>data.get\<close> raises
  \<open>AttributeError\<close>); a mapping without \<open>items\<close> (\<open>ValueError\<close>); success.
  The keyword arguments \<open>page\<close> and \<open>date_val\<close> only reach the log messages and
  are left out, as is the logging. \<open>max_retries\<close> and \<open>backoff\<close> are natural
  numbers here.
\<close>

fun fetch_attempts ::
  "'a server \<Rightarrow> string \<Rightarrow> nat \<Rightarrow> nat \<Rightarrow> nat list \<Rightarrow> world \<Rightarrow> (exn + 'a list) \<times> world" where
  "fetch_attempts server url max_retries backoff [] w = (Inr [], w)"
| "fetch_attempts server url max_retries backoff (retry # rest) w =
     (case http_get server url w of
        (NoResponse, w1) \<Rightarrow> (Inr [], w1)
      | (Response status body, w1) \<Rightarrow>
          if 400 \<le> status \<and> status < 600 then
            (if status = 422 then (Inr [], w1)
             else if retry = max_retries then (Inl (HTTPError status), w1)
             else fetch_attempts server url max_retries backoff rest
                    (sleep (of_nat (backoff ^ retry)) w1))
          else
            (case body of
               NotJson \<Rightarrow> (Inr [], w1)
             | NotMapping \<Rightarrow> (Inr [], w1)
             | Mapping None \<Rightarrow> (Inr [], w1)
             | Mapping (Some items) \<Rightarrow> (Inr items, w1)))"

definition fetch_page ::
  "'a server \<Rightarrow> string \<Rightarrow> nat \<Rightarrow> nat \<Rightarrow> world \<Rightarrow> (exn + 'a list) \<times> world" where
  "fetch_page server url max_retries backoff w =
     fetch_attempts server url max_retries backoff [1..<max_retries + 1] w"

section \<open>Date extractor\<close>

text \<open>
  The module's two default dicts are the first two objects of the heap.
  \<open>d.copy()\<close> allocates a new dict with the same items (the values are shared, and no
  code mutates a value); \<open>d[k] = v\<close> updates the object at an address. A reference
  the program holds is the address of an object of the heap, so every address read here
  is below the length of the heap once the module is loaded.
\<close>

definition DEFAULT_Q_FILTERS :: nat where
  "DEFAULT_Q_FILTERS = 0"

definition DEFAULT_API_PARAMS :: nat where
  "DEFAULT_API_PARAMS = 1"

definition module_init :: world where
  "module_init = \<lparr>heap = [DEFAULT_Q_FILTERS_init, DEFAULT_API_PARAMS_init], requests = [], slept = []\<rparr>"

definition dict_copy :: "nat \<Rightarrow> world \<Rightarrow> nat \<times> world" where
  "dict_copy a w = (length (heap w), w\<lparr>heap := heap w @ [heap w ! a]\<rparr>)"

definition setitem :: "nat \<Rightarrow> string \<Rightarrow> pyval \<Rightarrow> world \<Rightarrow> world" where
  "setitem a k v w = w\<lparr>heap := (heap w)[a := dict_set k v (heap w ! a)]\<rparr>"

text \<open>
  \<open>fetch_one_date\<close>. The body of \<open>while True\<close> is one call of the loop function, with
  the local variables \<open>page\<close> and \<open>items\<close> as arguments; a run that never leaves the
  loop has the value \<open>None\<close>. An exception of \<open>fetch_page\<close> leaves the function.
  The default arguments of \<open>fetch_page\<close> are \<open>max_retries = 3\<close> and \<open>backoff = 3\<close>.
\<close>

partial_function (option) fetch_one_date_loop ::
  "'a server \<Rightarrow> nat \<Rightarrow> int \<Rightarrow> 'a list \<Rightarrow> world \<Rightarrow> ((exn + 'a list) \<times> world) option" where
  "fetch_one_date_loop server q_filter_override page items w =
     (let (q_params_override, w1) = dict_copy DEFAULT_API_PARAMS w;
          w2 = setitem q_params_override ''page'' (Scalar (PyInt page)) w1;
          url_per_page = api_query_builder BASE_URL (heap w2 ! q_filter_override)
                           (heap w2 ! q_params_override)
      in (case fetch_page server url_per_page 3 3 w2 of
            (Inl e, w3) \<Rightarrow> Some (Inl e, w3)
          | (Inr page_items, w3) \<Rightarrow>
              if List.null page_items then Some (Inr items, w3)
              else fetch_one_date_loop server q_filter_override (page + 1)
                     (items @ page_items) (sleep (21 / 10) w3)))"

declare fetch_one_date_loop.simps [code]

definition fetch_one_date ::
  "'a server \<Rightarrow> string \<Rightarrow> world \<Rightarrow> ((exn + 'a list) \<times> world) option" where
  "fetch_one_date server date_value w =
     (let (q_filter_override, w1) = dict_copy DEFAULT_Q_FILTERS w;
          w2 = setitem q_filter_override ''created'' (Scalar (PyStr date_value)) w1
      in fetch_one_date_loop server q_filter_override 1 [] w2)"

section \<open>Notions the properties are stated with\<close>

text \<open>
  The clauses one filter entry stands for, in the words of the specification: a list
  value gives one \<open>key:value\<close> clause per element, in list order, a scalar value
  gives exactly one clause.
\<close>

fun filter_clauses :: "string \<times> pyval \<Rightarrow> string list" where
  "filter_clauses (key, ListV val) = map (\<lambda>item. key @ '':'' @ py_str item) val"
| "filter_clauses (key, Scalar val) = [key @ '':'' @ py_str val]"

text \<open>
  The query string as the specification describes it: the base URL, \<open>?q=\<close>, all
  filter clauses joined by \<open>+\<close>, \<open>&\<close>, and the API parameters joined by
  \<open>&\<close> as \<open>key=value\<close>.
\<close>

definition api_query_builder_spec :: "string \<Rightarrow> pydict \<Rightarrow> pydict \<Rightarrow> string" where
  "api_query_builder_spec base_url query_filters api_params =
     base_url @ ''?q='' @ join ''+'' (concat (map filter_clauses query_filters)) @ ''&'' @
     join ''&'' (map (\<lambda>(key, value). key @ ''='' @ py_str_val value) api_params)"

text \<open>
  A retryable response is an HTTP error (\<open>raise_for_status\<close> raises) whose status
  is not 422.
\<close>

definition retryable :: "'a response \<Rightarrow> bool" where
  "retryable r = (case r of NoResponse \<Rightarrow> False
                  | Response status body \<Rightarrow> 400 \<le> status \<and> status < 600 \<and> status \<noteq> 422)"

text \<open>\<open>http_err.response.status_code\<close>\<close>

fun status_code :: "'a response \<Rightarrow> nat" where
  "status_code (Response status body) = status"
| "status_code NoResponse = 0"

text \<open>
  The page a response that is not retryable stands for: the items of a success, and the
  empty page for status 422, for a malformed body and for a failed request.
\<close>

fun page_items :: "'a response \<Rightarrow> 'a list" where
  "page_items (Response status (Mapping (Some items))) =
     (if 400 \<le> status \<and> status < 600 then [] else items)"
| "page_items r = []"

text \<open>
  The two kinds of response the fetcher answers with an empty page at once: the status
  422, and a body that is not an HTTP error and is not JSON, not a mapping, or a mapping
  without \<open>items\<close>.
\<close>

fun end_of_results :: "'a response \<Rightarrow> bool" where
  "end_of_results (Response status body) = (status = 422)"
| "end_of_results NoResponse = False"

fun malformed :: "'a response \<Rightarrow> bool" where
  "malformed (Response status (Mapping (Some items))) = False"
| "malformed (Response status body) = (\<not> (400 \<le> status \<and> status < 600))"
| "malformed NoResponse = False"

subsection \<open>Example servers\<close>

definition always_500 :: "nat server" where
  "always_500 n url = Response 500 NotJson"

definition two_500_then_ok :: "nat server" where
  "two_500_then_ok n url = (if n < 2 then Response 500 NotJson else Response 200 (Mapping (Some [7, 8])))"

definition one_503_then_422 :: "nat server" where
  "one_503_then_422 n url = (if n < 1 then Response 503 NotJson else Response 422 NotJson)"

definition no_items_key :: "nat server" where
  "no_items_key n url = Response 200 (Mapping None)"

subsection \<open>Observations of a date's extraction\<close>

text \<open>
  \<open>nonempty\<close> is the truth value Python gives a list; \<open>sleeps_of\<close> keeps of a finished
  call its result and the sleeps of the world it leaves.
\<close>

definition nonempty :: "'a list \<Rightarrow> bool" where
  "nonempty p = (\<not> List.null p)"

definition sleeps_of :: "((exn + 'a list) \<times> world) option \<Rightarrow> ((exn + 'a list) \<times> rat list) option" where
  "sleeps_of = map_option (\<lambda>(r, w). (r, slept w))"

text \<open>Two pages of ten items, then empty pages.\<close>

definition three_pages :: "nat server" where
  "three_pages n url =
     Response 200 (Mapping (Some
       (if n = 0 then [1, 2, 3, 4, 5, 6, 7, 8, 9, 10]
        else if n = 1 then [11, 12, 13, 14, 15, 16, 17, 18, 19, 20]
        else [])))"

section \<open>Data frames\<close>

text \<open>
  A raw item is a JSON object as \<open>response.json()\<close> gives it: a Python dict from
  strings to JSON values, with distinct keys.
\<close>

datatype cell = JNull | JBool bool | JNum rat | JStr string
  | JObj "(string \<times> cell) list" | JArr "cell list"

type_synonym raw_item = "(string \<times> cell) list"

text \<open>
  The part of a pandas \<open>DataFrame\<close> the transformer uses: the column labels, and the
  rows in index order, each with one cell per column. Missing values (\<open>None\<close>,
  \<open>NaN\<close>, \<open>NaT\<close>) are all \<open>JNull\<close>: \<open>isna\<close>, \<open>dropna\<close> and \<open>fillna\<close>
  do not tell them apart. Numbers are rationals: the rounding of floating point is not
  modelled.
\<close>

record table =
  columns :: "string list"
  rows :: "cell list list"

fun and_then :: "exn + 'a \<Rightarrow> ('a \<Rightarrow> exn + 'b) \<Rightarrow> exn + 'b" where
  "and_then (Inl e) f = Inl e"
| "and_then (Inr x) f = f x"

text \<open>The elements of a list by key, first occurrence only, in order.\<close>

fun keep_first_by :: "('a \<Rightarrow> 'k) \<Rightarrow> 'k list \<Rightarrow> 'a list \<Rightarrow> 'a list" where
  "keep_first_by key seen [] = []"
| "keep_first_by key seen (x # xs) =
     (if key x \<in> set seen then keep_first_by key seen xs
      else x # keep_first_by key (key x # seen) xs)"

fun index_of :: "'a \<Rightarrow> 'a list \<Rightarrow> nat" where
  "index_of c [] = 0"
| "index_of c (x # xs) = (if x = c then 0 else Suc (index_of c xs))"

definition cell_at :: "cell list \<Rightarrow> nat \<Rightarrow> cell" where
  "cell_at r i = (if i < length r then r ! i else JNull)"

definition item_get :: "raw_item \<Rightarrow> string \<Rightarrow> cell" where
  "item_get item c = (case map_of item c of None \<Rightarrow> JNull | Some v \<Rightarrow> v)"

text \<open>
  \<open>pd.DataFrame(items_list)\<close> for a list of dicts: the columns are the keys in the
  order they first appear, and a key an item lacks gives a missing value.
\<close>

definition DataFrame :: "raw_item list \<Rightarrow> table" where
  "DataFrame items_list =
     (let cols = keep_first_by (\<lambda>c. c) [] (concat (map (map fst) items_list))
      in \<lparr>columns = cols, rows = map (\<lambda>item. map (item_get item) cols) items_list\<rparr>)"

text \<open>\<open>df[c]\<close> raises \<open>KeyError\<close> for a label that is not a column.\<close>

definition get_column :: "string \<Rightarrow> table \<Rightarrow> exn + cell list" where
  "get_column c df =
     (if c \<in> set (columns df)
      then Inr (map (\<lambda>r. cell_at r (index_of c (columns df))) (rows df))
      else Inl (KeyError c))"

text \<open>
  \<open>df[c] = values\<close>: an existing column is replaced where it stands, a new one goes
  last.
\<close>

definition set_column :: "string \<Rightarrow> cell list \<Rightarrow> table \<Rightarrow> table" where
  "set_column c vals df =
     (if c \<in> set (columns df)
      then df\<lparr>rows := map (\<lambda>(r, v). r[index_of c (columns df) := v]) (zip (rows df) vals)\<rparr>
      else \<lparr>columns = columns df @ [c], rows = map (\<lambda>(r, v). r @ [v]) (zip (rows df) vals)\<rparr>)"

text \<open>\<open>df[cols]\<close> for labels that are all columns of \<open>df\<close>.\<close>

definition project :: "string list \<Rightarrow> table \<Rightarrow> table" where
  "project cols df =
     \<lparr>columns = cols,
      rows = map (\<lambda>r. map (\<lambda>c. cell_at r (index_of c (columns df))) cols) (rows df)\<rparr>"

text \<open>\<open>df.empty\<close>: no rows or no columns.\<close>

definition empty_frame :: "table \<Rightarrow> bool" where
  "empty_frame df = (List.null (rows df) \<or> List.null (columns df))"

section \<open>Transformer\<close>

definition required_cols :: "string list" where
  "required_cols =
     [''id'', ''name'', ''description'', ''created_at'', ''updated_at'', ''pushed_at'',
      ''size'', ''stargazers_count'', ''watchers_count'', ''language'', ''forks'',
      ''watchers'', ''score'', ''user'', ''user_type'', ''user_id'']"

text \<open>
  The element-wise comparison \<open>series == False\<close>: Python's \<open>==\<close>, under which
  \<open>False\<close> and the number 0 equal \<open>False\<close> and a missing value does not.
\<close>

fun eq_False :: "cell \<Rightarrow> bool" where
  "eq_False (JBool b) = (\<not> b)"
| "eq_False (JNum n) = (n = 0)"
| "eq_False c = False"

text \<open>
  The element-wise \<open>series.str.get(key)\<close> for a string key: \<open>dict.get\<close> on a dict,
  a missing value on anything else. The API sends \<open>owner\<close> as an object or null;
  for a column of numbers or booleans only, the accessor \<open>.str\<close> itself raises
  \<open>AttributeError\<close>, which is outside the model.
\<close>

fun str_get :: "string \<Rightarrow> cell \<Rightarrow> cell" where
  "str_get key (JObj d) = (case map_of d key of None \<Rightarrow> JNull | Some v \<Rightarrow> v)"
| "str_get key c = JNull"

text \<open>
  The boolean-mask selection of \<open>filter_columns\<close>: the rows whose \<open>archived\<close>,
  \<open>disabled\<close> and \<open>is_template\<close> all equal \<open>False\<close>.
\<close>

definition select_active :: "table \<Rightarrow> exn + table" where
  "select_active raw_data =
     and_then (get_column ''archived'' raw_data) (\<lambda>archived.
     and_then (get_column ''disabled'' raw_data) (\<lambda>disabled.
     and_then (get_column ''is_template'' raw_data) (\<lambda>is_template.
       Inr (raw_data\<lparr>rows :=
              map fst (filter (\<lambda>(r, a, d, t). eq_False a \<and> eq_False d \<and> eq_False t)
                        (zip (rows raw_data) (zip archived (zip disabled is_template))))\<rparr>))))"

text \<open>
  \<open>filter_columns\<close> after the construction of the frame, so that it applies to a frame
  as well as to a list of items (\<open>pd.DataFrame\<close> of a frame is that frame).
\<close>

definition filter_frame :: "string list \<Rightarrow> table \<Rightarrow> exn + table" where
  "filter_frame keep_columns raw_data =
     and_then (select_active raw_data) (\<lambda>filtered_data.
     and_then (get_column ''owner'' filtered_data) (\<lambda>owner.
       let filtered_data = set_column ''user'' (map (str_get ''login'') owner) filtered_data in
     and_then (get_column ''owner'' filtered_data) (\<lambda>owner.
       let filtered_data = set_column ''user_type'' (map (str_get ''type'') owner) filtered_data in
     and_then (get_column ''owner'' filtered_data) (\<lambda>owner.
       let filtered_data = set_column ''user_id'' (map (str_get ''id'') owner) filtered_data;
           final_cols_in_df = filter (\<lambda>col. col \<in> set (columns filtered_data)) keep_columns
       in Inr (project final_cols_in_df filtered_data)))))"

definition filter_columns :: "raw_item list \<Rightarrow> exn + table" where
  "filter_columns items_list = filter_frame required_cols (DataFrame items_list)"

text \<open>
  \<open>df.drop_duplicates(subset=[c])\<close> keeps, of the rows with equal cells in column
  \<open>c\<close>, the first (\<open>keep='first'\<close> is the default); missing values count as equal.
  Cells are equal when they are the same JSON value, which is pandas' equality for the
  integer and string \<open>id\<close>s the API sends (pandas also identifies \<open>True\<close>,
  \<open>1\<close> and \<open>1.0\<close>, and numbers that round to one float).
\<close>

definition drop_duplicates :: "string \<Rightarrow> table \<Rightarrow> exn + table" where
  "drop_duplicates c df =
     and_then (get_column c df) (\<lambda>keys.
       Inr (df\<lparr>rows := map fst (keep_first_by snd [] (zip (rows df) keys))\<rparr>))"

text \<open>
  \<open>df.dropna(subset=labels)\<close> removes the rows with a missing value in one of the
  columns, and raises \<open>KeyError\<close> for a label that is not a column.
\<close>

definition dropna :: "string list \<Rightarrow> table \<Rightarrow> exn + table" where
  "dropna labels df =
     (case filter (\<lambda>c. c \<notin> set (columns df)) labels of
        c # cs \<Rightarrow> Inl (KeyError c)
      | [] \<Rightarrow> Inr (df\<lparr>rows := filter (\<lambda>r. list_all (\<lambda>c.
                                  cell_at r (index_of c (columns df)) \<noteq> JNull) labels) (rows df)\<rparr>))"

text \<open>
  The value a cell has under \<open>mean\<close>: a missing value is skipped, a boolean counts as
  0 or 1, and a string, object or array makes the mean raise \<open>TypeError\<close>.
\<close>

fun as_number :: "cell \<Rightarrow> exn + rat option" where
  "as_number JNull = Inr None"
| "as_number (JNum n) = Inr (Some n)"
| "as_number (JBool b) = Inr (Some (if b then 1 else 0))"
| "as_number c = Inl TypeError"

fun as_numbers :: "cell list \<Rightarrow> exn + rat option list" where
  "as_numbers [] = Inr []"
| "as_numbers (c # cs) =
     and_then (as_number c) (\<lambda>n. and_then (as_numbers cs) (\<lambda>ns. Inr (n # ns)))"

text \<open>The mean of the values present; a missing value when there is none.\<close>

definition mean :: "rat option list \<Rightarrow> cell" where
  "mean ns =
     (let present = concat (map (\<lambda>n. case n of None \<Rightarrow> [] | Some q \<Rightarrow> [q]) ns)
      in if List.null present then JNull
         else JNum (sum_list present / of_nat (length present)))"

text \<open>\<open>series.fillna(other)\<close>, cell by cell.\<close>

definition fillna :: "cell \<Rightarrow> cell \<Rightarrow> cell" where
  "fillna c other = (if c = JNull then other else c)"

text \<open>
  \<open>df.groupby(['user_id'])['size'].transform('mean')\<close>: for each row, the mean of the
  sizes of the rows with the same \<open>user_id\<close>; rows without a \<open>user_id\<close> are in no
  group.
\<close>

definition group_means :: "cell list \<Rightarrow> rat option list \<Rightarrow> cell list" where
  "group_means user_ids sizes =
     map (\<lambda>u. if u = JNull then JNull
              else mean (map snd (filter (\<lambda>(u', n). u' = u) (zip user_ids sizes)))) user_ids"

definition handle_nulls_and_dupes :: "table \<Rightarrow> exn + table" where
  "handle_nulls_and_dupes df =
     and_then (drop_duplicates ''id'' df) (\<lambda>df.
     and_then (dropna [''id'', ''created_at'', ''user_id'', ''user_type''] df) (\<lambda>df.
     and_then (get_column ''size'' df) (\<lambda>size.
     and_then (get_column ''user_id'' df) (\<lambda>user_id.
     and_then (as_numbers size) (\<lambda>sizes.
       let df = set_column ''size'' (map (\<lambda>(c, m). fillna c m) (zip size (group_means user_id sizes))) df in
     and_then (get_column ''size'' df) (\<lambda>size.
     and_then (as_numbers size) (\<lambda>sizes.
       let df = set_column ''size'' (map (\<lambda>c. fillna c (mean sizes)) size) df in
     and_then (get_column ''language'' df) (\<lambda>language.
       Inr (set_column ''language'' (map (\<lambda>c. fillna c (JStr ''Unknown'')) language) df)))))))))"

text \<open>
  \<open>datetime_columns_formatter\<close>. \<open>pd.to_datetime\<close> is pandas' parser, applied to a
  whole column; it is a parameter of the model.
\<close>

definition convert_column :: "(cell list \<Rightarrow> exn + cell list) \<Rightarrow> string \<Rightarrow> table \<Rightarrow> exn + table" where
  "convert_column to_datetime c df =
     and_then (get_column c df) (\<lambda>col.
     and_then (to_datetime col) (\<lambda>converted. Inr (set_column c converted df)))"

definition datetime_columns_formatter ::
  "(cell list \<Rightarrow> exn + cell list) \<Rightarrow> table \<Rightarrow> exn + table" where
  "datetime_columns_formatter to_datetime df =
     (if \<not> empty_frame df then
        and_then (convert_column to_datetime ''created_at'' df) (\<lambda>df.
        and_then (convert_column to_datetime ''updated_at'' df) (\<lambda>df.
        convert_column to_datetime ''pushed_at'' df))
      else Inr df)"

definition transform :: "(cell list \<Rightarrow> exn + cell list) \<Rightarrow> raw_item list \<Rightarrow> exn + table" where
  "transform to_datetime items_list =
     and_then (filter_columns items_list) (\<lambda>df_raw.
       if empty_frame df_raw then Inr df_raw
       else and_then (handle_nulls_and_dupes df_raw) (datetime_columns_formatter to_datetime))"

subsection \<open>Example items\<close>

text \<open>
  A repository record with the fields the transformer reads; the parser of the examples
  keeps every cell as it is.
\<close>

definition repo :: "int \<Rightarrow> string \<Rightarrow> bool \<Rightarrow> cell \<Rightarrow> cell \<Rightarrow> raw_item" where
  "repo i name archived sz created_at =
     [(''id'', JNum (of_int i)), (''name'', JStr name), (''archived'', JBool archived),
      (''disabled'', JBool False), (''is_template'', JBool False),
      (''owner'', JObj [(''login'', JStr ''octocat''), (''id'', JNum 7), (''type'', JStr ''User'')]),
      (''size'', sz), (''language'', JNull), (''created_at'', created_at),
      (''updated_at'', JStr ''2025-01-02T00:00:00Z''), (''pushed_at'', JStr ''2025-01-03T00:00:00Z'')]"

definition keep_cells :: "cell list \<Rightarrow> exn + cell list" where
  "keep_cells col = Inr col"

text \<open>An archived repository with a size, then a live one of another id without a size.\<close>

definition batch_size_null :: "raw_item list" where
  "batch_size_null =
     [repo 1 ''a'' True (JNum 5) (JStr ''2025-01-01T00:00:00Z''),
      repo 2 ''b'' False JNull (JStr ''2025-01-01T00:00:00Z'')]"


text \<open>Two live records of one id and a third of another id.\<close>

definition batch_duplicate :: "raw_item list" where
  "batch_duplicate =
     [repo 1 ''a'' False (JNum 5) (JStr ''2025-01-01T00:00:00Z''),
      repo 1 ''b'' False (JNum 6) (JStr ''2025-01-01T00:00:00Z''),
      repo 2 ''c'' False (JNum 7) (JStr ''2025-01-01T00:00:00Z'')]"

section \<open>Notions the transformer's properties are stated with\<close>


text \<open>The row passes the mask of \<open>filter_columns\<close>.\<close>

definition active :: "table \<Rightarrow> cell list \<Rightarrow> bool" where
  "active df r =
     (eq_False (cell_at r (index_of ''archived'' (columns df))) \<and>
      eq_False (cell_at r (index_of ''disabled'' (columns df))) \<and>
      eq_False (cell_at r (index_of ''is_template'' (columns df))))"





text \<open>
  The columns \<open>filter_columns\<close> leaves of the example items, and such a row by its
  \<open>id\<close>, \<open>name\<close>, \<open>size\<close> and \<open>language\<close>.
\<close>

definition example_columns :: "string list" where
  "example_columns = [''id'', ''name'', ''created_at'', ''updated_at'', ''pushed_at'',
         ''size'', ''language'', ''user'', ''user_type'', ''user_id'']"

definition example_row :: "int \<Rightarrow> string \<Rightarrow> cell \<Rightarrow> cell \<Rightarrow> cell list" where
  "example_row i name sz language =
     [JNum (of_int i), JStr name, JStr ''2025-01-01T00:00:00Z'', JStr ''2025-01-02T00:00:00Z'',
      JStr ''2025-01-03T00:00:00Z'', sz, language, JStr ''octocat'', JStr ''User'', JNum 7]"

text \<open>The frame \<open>filter_columns\<close> makes of \<open>batch_duplicate\<close>.\<close>

definition frame_duplicate :: table where
  "frame_duplicate =
     \<lparr>columns = example_columns,
      rows = [example_row 1 ''a'' (JNum 5) JNull, example_row 1 ''b'' (JNum 6) JNull,
              example_row 2 ''c'' (JNum 7) JNull]\<rparr>"

section \<open>Loader\<close>

text \<open>
  What the run does to the database: the frames \<open>load_data_to_db\<close> was called with, and
  the frames \<open>to_sql\<close> wrote. The engine is the database's side: whether writing a frame
  succeeds.
\<close>

record db =
  loader_calls :: "table list"
  written :: "table list"

definition load_data_to_db :: "(table \<Rightarrow> bool) \<Rightarrow> table \<Rightarrow> db \<Rightarrow> (exn + unit) \<times> db" where
  "load_data_to_db engine df d =
     (let d = d\<lparr>loader_calls := loader_calls d @ [df]\<rparr>
      in if empty_frame df then (Inr (), d)
         else if engine df then (Inr (), d\<lparr>written := written d @ [df]\<rparr>)
         else (Inl DBError, d))"

section \<open>Orchestrator\<close>

text \<open>
  \<open>pd.concat(frames, ignore_index=True)\<close>: the columns of all frames in the order they
  first appear, the rows of all frames in order, a missing value where a frame lacks a
  column.
\<close>

definition pd_concat :: "table list \<Rightarrow> table" where
  "pd_concat frames =
     (let cols = keep_first_by (\<lambda>c. c) [] (concat (map columns frames))
      in \<lparr>columns = cols,
          rows = concat (map (\<lambda>df. map (\<lambda>r. map (\<lambda>c.
                   if c \<in> set (columns df) then cell_at r (index_of c (columns df)) else JNull)
                   cols) (rows df)) frames)\<rparr>)"

text \<open>
  The \<open>for\<close> loop of \<open>full_etl\<close> over the dates still to process, with the list
  \<open>all_transformed_dataframes\<close> and the world as its state. An exception of the
  extractor or of the transformer leaves the loop, and a date whose extraction never
  returns makes the run never return.
\<close>

fun process_dates ::
  "raw_item server \<Rightarrow> (cell list \<Rightarrow> exn + cell list) \<Rightarrow> string list \<Rightarrow> table list \<Rightarrow> world \<Rightarrow>
     ((exn + table list) \<times> world) option" where
  "process_dates server to_datetime [] all_transformed_dataframes w =
     Some (Inr all_transformed_dataframes, w)"
| "process_dates server to_datetime (d # fetch_dates) all_transformed_dataframes w =
     (case fetch_one_date server d w of
        None \<Rightarrow> None
      | Some (Inl e, w') \<Rightarrow> Some (Inl e, w')
      | Some (Inr daily_batch, w') \<Rightarrow>
          if List.null daily_batch
          then process_dates server to_datetime fetch_dates all_transformed_dataframes w'
          else (case transform to_datetime daily_batch of
                  Inl e \<Rightarrow> Some (Inl e, w')
                | Inr daily_df \<Rightarrow>
                    if \<not> empty_frame daily_df
                    then process_dates server to_datetime fetch_dates
                           (all_transformed_dataframes @ [daily_df]) w'
                    else process_dates server to_datetime fetch_dates
                           all_transformed_dataframes w'))"

definition full_etl ::
  "raw_item server \<Rightarrow> (cell list \<Rightarrow> exn + cell list) \<Rightarrow> (table \<Rightarrow> bool) \<Rightarrow> string list \<Rightarrow>
     world \<Rightarrow> db \<Rightarrow> ((exn + unit) \<times> world \<times> db) option" where
  "full_etl server to_datetime engine fetch_dates w d =
     (if List.null fetch_dates then Some (Inr (), w, d)
      else
        (case process_dates server to_datetime fetch_dates [] w of
           None \<Rightarrow> None
         | Some (Inl e, w') \<Rightarrow> Some (Inl e, w', d)
         | Some (Inr all_transformed_dataframes, w') \<Rightarrow>
             if List.null all_transformed_dataframes then Some (Inr (), w', d)
             else
               let final_df = pd_concat all_transformed_dataframes
               in if empty_frame final_df then Some (Inr (), w', d)
                  else (case load_data_to_db engine final_df d of
                          (r, d') \<Rightarrow> Some (r, w', d'))))"

section \<open>Notions the orchestrator's properties are stated with\<close>

text \<open>
  The extractions of a run alone: the batch of every date, in date order, each date
  starting in the world the one before left.
\<close>

fun extract_dates ::
  "'a server \<Rightarrow> string list \<Rightarrow> world \<Rightarrow> ((exn + 'a list list) \<times> world) option" where
  "extract_dates server [] w = Some (Inr [], w)"
| "extract_dates server (d # ds) w =
     (case fetch_one_date server d w of
        None \<Rightarrow> None
      | Some (Inl e, w') \<Rightarrow> Some (Inl e, w')
      | Some (Inr batch, w') \<Rightarrow>
          (case extract_dates server ds w' of
             None \<Rightarrow> None
           | Some (Inl e, w'') \<Rightarrow> Some (Inl e, w'')
           | Some (Inr batches, w'') \<Rightarrow> Some (Inr (batch # batches), w'')))"

text \<open>
  The non-empty cleaned fragments of the batches, in order: the transformer's frames of
  the non-empty batches, without the empty frames.
\<close>

definition fragments :: "(cell list \<Rightarrow> exn + cell list) \<Rightarrow> raw_item list list \<Rightarrow> table list" where
  "fragments to_datetime batches =
     filter (\<lambda>df. \<not> empty_frame df)
       (map (\<lambda>batch. projr (transform to_datetime batch)) (filter nonempty batches))"

text \<open>The frames the Loader was called with, when the run returns or raises.\<close>

definition loads_of :: "((exn + unit) \<times> world \<times> db) option \<Rightarrow> table list option" where
  "loads_of = map_option (\<lambda>(r, w, d). loader_calls d)"

subsection \<open>An example run\<close>

text \<open>
  A page of three records, the second archived, and the frame \<open>transform\<close> makes of
  it; an engine that accepts every frame; a database nothing was done to.
\<close>

definition batch_three :: "raw_item list" where
  "batch_three =
     [repo 1 ''a'' False (JNum 5) (JStr ''2025-01-01T00:00:00Z''),
      repo 2 ''b'' True (JNum 6) (JStr ''2025-01-01T00:00:00Z''),
      repo 3 ''c'' False (JNum 7) (JStr ''2025-01-01T00:00:00Z'')]"

definition accept_all :: "table \<Rightarrow> bool" where
  "accept_all df = True"

definition empty_db :: db where
  "empty_db = \<lparr>loader_calls = [], written = []\<rparr>"

definition frame_three :: table where
  "frame_three =
     \<lparr>columns = example_columns,
      rows = [example_row 1 ''a'' (JNum 5) (JStr ''Unknown''),
              example_row 3 ''c'' (JNum 7) (JStr ''Unknown'')]\<rparr>"

text \<open>
  The first date has one page of three records; every request of the second date is
  answered with status 500.
\<close>

definition page_then_500 :: "raw_item server" where
  "page_then_500 n url =
     (if n = 0 then Response 200 (Mapping (Some batch_three))
      else if n = 1 then Response 200 (Mapping (Some []))
      else Response 500 NotJson)"

text \<open>
  Two dates of one page each, the second with a duplicated \<open>id\<close>, and a third date
  without a record.
\<close>

definition two_days :: "raw_item server" where
  "two_days n url =
     Response 200 (Mapping (Some
       (if n = 0 then batch_three else if n = 2 then batch_duplicate else [])))"

definition frame_deduplicated :: table where
  "frame_deduplicated =
     \<lparr>columns = example_columns,
      rows = [example_row 1 ''a'' (JNum 5) (JStr ''Unknown''),
              example_row 2 ''c'' (JNum 7) (JStr ''Unknown'')]\<rparr>"

definition frame_two_days :: table where
  "frame_two_days =
     \<lparr>columns = example_columns,
      rows = [example_row 1 ''a'' (JNum 5) (JStr ''Unknown''),
              example_row 3 ''c'' (JNum 7) (JStr ''Unknown''),
              example_row 1 ''a'' (JNum 5) (JStr ''Unknown''),
              example_row 2 ''c'' (JNum 7) (JStr ''Unknown'')]\<rparr>"

section \<open>Properties of the query builder\<close>

lemma append_items_eq:
  "append_items key val acc = acc @ map (\<lambda>item. key @ '':'' @ py_str item) val"
  by (induction val arbitrary: acc) simp_all

lemma build_filter_parts_eq:
  "build_filter_parts query_filters acc = acc @ concat (map filter_clauses query_filters)"
proof (induction query_filters acc rule: build_filter_parts.induct)
  case (2 key val query_filters filter_parts)
  then show ?case by (simp add: append_items_eq)
qed simp_all

text \<open>
  C5: for every base URL, filter mapping and parameter mapping, the query builder returns
  the base URL, \<open>?q=\<close>, the filter clauses joined by \<open>+\<close>, \<open>&\<close> and the
  parameters joined by \<open>&\<close> as \<open>key=value\<close>; a list-valued filter key gives one
  clause per element in list order and a scalar one exactly one clause
  (\<open>filter_clauses\<close>). The function is total and has no state.
\<close>

theorem api_query_builder_refines_spec:
  "api_query_builder base_url query_filters api_params =
   api_query_builder_spec base_url query_filters api_params"
  by (simp add: api_query_builder_def api_query_builder_spec_def build_filter_parts_eq)

section \<open>Properties of the page fetcher\<close>

lemma fetch_attempts_retry:
  assumes "\<forall>i<N. retryable (server (length (requests w) + i) url)" and "k + N \<le> m"
  shows "fetch_attempts server url m b [k..<Suc m] w =
         fetch_attempts server url m b [k + N..<Suc m]
           (w\<lparr>requests := requests w @ replicate N url,
              slept := slept w @ map (\<lambda>j. of_nat (b ^ j)) [k..<k + N]\<rparr>)"
  using assms
proof (induction N arbitrary: k w)
  case 0
  then show ?case by simp
next
  case (Suc N)
  from Suc.prems have r0: "retryable (server (length (requests w)) url)" by force
  then obtain s body where resp: "server (length (requests w)) url = Response s body"
    and s: "400 \<le> s" "s < 600" "s \<noteq> 422"
    by (auto simp: retryable_def split: response.splits)
  let ?w1 = "sleep (of_nat (b ^ k)) (w\<lparr>requests := requests w @ [url]\<rparr>)"
  from Suc.prems have km: "k < m" by simp
  then have upt: "[k..<Suc m] = k # [Suc k..<Suc m]" by (simp add: upt_conv_Cons)
  have step: "fetch_attempts server url m b [k..<Suc m] w =
              fetch_attempts server url m b [Suc k..<Suc m] ?w1"
    unfolding upt using resp s km by (simp add: http_get_def)
  have rest: "\<forall>i<N. retryable (server (length (requests ?w1) + i) url)"
    using Suc.prems(1) by (auto simp: sleep_def)
  have "Suc k + N \<le> m" using Suc.prems by simp
  from Suc.IH[OF rest this] step show ?case
    by (simp add: sleep_def upt_conv_Cons replicate_append_same del: upt_Suc)
qed


lemma fetch_attempts_exhausted:
  assumes "retryable (server (length (requests w)) url)"
  shows "fetch_attempts server url m b [m..<Suc m] w =
         (Inl (HTTPError (status_code (server (length (requests w)) url))),
          w\<lparr>requests := requests w @ [url]\<rparr>)"
  using assms by (auto simp: retryable_def http_get_def split: response.splits)

lemma fetch_attempts_settled:
  assumes "\<not> retryable (server (length (requests w)) url)" and "k \<le> m"
  shows "fetch_attempts server url m b [k..<Suc m] w =
         (Inr (page_items (server (length (requests w)) url)),
          w\<lparr>requests := requests w @ [url]\<rparr>)"
proof -
  from assms(2) have upt: "[k..<Suc m] = k # [Suc k..<Suc m]" by (simp add: upt_conv_Cons)
  show ?thesis
  proof (cases "server (length (requests w)) url")
    case NoResponse
    then show ?thesis unfolding upt by (simp add: http_get_def)
  next
    case (Response s body)
    with assms(1) have "\<not> (400 \<le> s \<and> s < 600) \<or> s = 422" by (auto simp: retryable_def)
    with Response show ?thesis unfolding upt
      by (cases body) (auto simp: http_get_def split: option.splits)
  qed
qed

lemma fetch_page_settled:
  assumes "\<forall>i<N. retryable (server (length (requests w) + i) url)"
    and "\<not> retryable (server (length (requests w) + N) url)"
    and "N < max_retries"
  shows "fetch_page server url max_retries b w =
         (Inr (page_items (server (length (requests w) + N) url)),
          w\<lparr>requests := requests w @ replicate (Suc N) url,
            slept := slept w @ map (\<lambda>j. of_nat (b ^ j)) [1..<Suc N]\<rparr>)"
proof -
  let ?w = "w\<lparr>requests := requests w @ replicate N url,
              slept := slept w @ map (\<lambda>j. of_nat (b ^ j)) [1..<1 + N]\<rparr>"
  have "1 + N \<le> max_retries" using assms(3) by simp
  from fetch_attempts_retry[where k=1 and b=b and server=server and w=w and url=url and N=N, OF assms(1) this]
  have "fetch_page server url max_retries b w =
        fetch_attempts server url max_retries b [1 + N..<Suc max_retries] ?w"
    by (simp add: fetch_page_def)
  also have "\<dots> = (Inr (page_items (server (length (requests ?w)) url)),
                   ?w\<lparr>requests := requests ?w @ [url]\<rparr>)"
    using assms(2,3) by (intro fetch_attempts_settled) simp_all
  finally show ?thesis by (simp add: replicate_append_same)
qed

lemma fetch_page_exhausted:
  assumes "\<forall>i<max_retries. retryable (server (length (requests w) + i) url)"
    and "1 \<le> max_retries"
  shows "fetch_page server url max_retries b w =
         (Inl (HTTPError (status_code (server (length (requests w) + (max_retries - 1)) url))),
          w\<lparr>requests := requests w @ replicate max_retries url,
            slept := slept w @ map (\<lambda>j. of_nat (b ^ j)) [1..<max_retries]\<rparr>)"
proof -
  obtain n where n: "max_retries = Suc n" using assms(2) by (cases max_retries) auto
  let ?w = "w\<lparr>requests := requests w @ replicate n url,
              slept := slept w @ map (\<lambda>j. of_nat (b ^ j)) [1..<1 + n]\<rparr>"
  have pre: "\<forall>i<n. retryable (server (length (requests w) + i) url)"
    using assms(1) n by simp
  have "1 + n \<le> max_retries" using n by simp
  from fetch_attempts_retry[where k=1 and b=b and server=server and w=w and url=url and N=n, OF pre this]
  have "fetch_page server url max_retries b w =
        fetch_attempts server url max_retries b [max_retries..<Suc max_retries] ?w"
    by (simp add: fetch_page_def n)
  also have "\<dots> = (Inl (HTTPError (status_code (server (length (requests ?w)) url))),
                   ?w\<lparr>requests := requests ?w @ [url]\<rparr>)"
    using assms(1) n by (intro fetch_attempts_exhausted) simp
  finally show ?thesis by (simp add: n replicate_append_same)
qed

text \<open>
  C1: for every URL and world, when the first \<open>N\<close> responses are retryable HTTP errors
  and the next one is a success with \<open>items\<close>, \<open>fetch_page\<close> returns \<open>items\<close> if
  \<open>N < max_retries\<close>, and if \<open>1 \<le> max_retries \<le> N\<close> it raises the HTTP error of
  the last attempt made, attempt \<open>max_retries\<close>.
\<close>

theorem fetch_page_retries_then_success:
  assumes "\<forall>i<N. retryable (server (length (requests w) + i) url)"
    and "server (length (requests w) + N) url = Response status (Mapping (Some items))"
    and "\<not> (400 \<le> status \<and> status < 600)"
  shows "(N < max_retries \<longrightarrow> fst (fetch_page server url max_retries backoff w) = Inr items) \<and>
         (1 \<le> max_retries \<and> max_retries \<le> N \<longrightarrow>
            fst (fetch_page server url max_retries backoff w) =
            Inl (HTTPError (status_code (server (length (requests w) + (max_retries - 1)) url))))"
proof (intro conjI impI)
  assume "N < max_retries"
  moreover have "\<not> retryable (server (length (requests w) + N) url)"
    using assms(2,3) by (auto simp: retryable_def)
  ultimately show "fst (fetch_page server url max_retries backoff w) = Inr items"
    using assms by (auto simp: fetch_page_settled)
next
  assume "1 \<le> max_retries \<and> max_retries \<le> N"
  then show "fst (fetch_page server url max_retries backoff w) =
            Inl (HTTPError (status_code (server (length (requests w) + (max_retries - 1)) url)))"
    using assms(1) by (simp add: fetch_page_exhausted)
qed

theorem fetch_page_retries_then_success_witness:
  "fst (fetch_page two_500_then_ok ''u'' 3 3 module_init) = Inr [7, 8] \<and>
   fst (fetch_page two_500_then_ok ''u'' 2 3 module_init) = Inl (HTTPError 500)"
proof -
  have h1: "\<forall>i<2. retryable (two_500_then_ok (length (requests module_init) + i) ''u'')"
    by (simp add: two_500_then_ok_def retryable_def module_init_def)
  have h2: "two_500_then_ok (length (requests module_init) + 2) ''u'' = Response 200 (Mapping (Some [7, 8]))"
    by (simp add: two_500_then_ok_def module_init_def)
  have h3: "\<not> (400 \<le> (200::nat) \<and> (200::nat) < 600)" by simp
  from fetch_page_retries_then_success[where server=two_500_then_ok and N=2 and max_retries=3 and backoff=3, OF h1 h2 h3]
       fetch_page_retries_then_success[where server=two_500_then_ok and N=2 and max_retries=2 and backoff=3, OF h1 h2 h3]
  show ?thesis by (simp add: two_500_then_ok_def module_init_def)
qed

text \<open>
  C2: when a response has status 422 or a malformed body, \<open>fetch_page\<close> returns the
  empty list without raising, and the world it leaves holds this request as the last
  one and no sleep after it: after \<open>N\<close> retryable failures the requests are exactly
  \<open>N + 1\<close> and the sleeps exactly the \<open>N\<close> backoffs of the failures. With
  \<open>N = 0\<close> there is one request and no sleep at all.
\<close>

theorem fetch_page_empty_without_retry:
  assumes "\<forall>i<N. retryable (server (length (requests w) + i) url)"
    and "end_of_results (server (length (requests w) + N) url) \<or>
         malformed (server (length (requests w) + N) url)"
    and "N < max_retries"
  shows "fetch_page server url max_retries backoff w =
         (Inr [], w\<lparr>requests := requests w @ replicate (Suc N) url,
                    slept := slept w @ map (\<lambda>j. of_nat (backoff ^ j)) [1..<Suc N]\<rparr>)"
proof -
  let ?r = "server (length (requests w) + N) url"
  from assms(2) have "\<not> retryable ?r \<and> page_items ?r = []"
    by (cases ?r rule: malformed.cases) (auto simp: retryable_def)
  with assms(1,3) show ?thesis by (simp add: fetch_page_settled)
qed

theorem fetch_page_empty_without_retry_witness:
  "fetch_page no_items_key ''u'' 3 3 module_init = (Inr [], module_init\<lparr>requests := [''u'']\<rparr>) \<and>
   fetch_page one_503_then_422 ''u'' 3 3 module_init =
     (Inr [], module_init\<lparr>requests := [''u'', ''u''], slept := [3]\<rparr>)"
proof -
  have a1: "\<forall>i<0. retryable (no_items_key (length (requests module_init) + i) ''u'')" by simp
  have a2: "end_of_results (no_items_key (length (requests module_init) + 0) ''u'') \<or>
            malformed (no_items_key (length (requests module_init) + 0) ''u'')"
    by (simp add: no_items_key_def module_init_def)
  have b1: "\<forall>i<1. retryable (one_503_then_422 (length (requests module_init) + i) ''u'')"
    by (simp add: one_503_then_422_def retryable_def module_init_def)
  have b2: "end_of_results (one_503_then_422 (length (requests module_init) + 1) ''u'') \<or>
            malformed (one_503_then_422 (length (requests module_init) + 1) ''u'')"
    by (simp add: one_503_then_422_def module_init_def)
  from fetch_page_empty_without_retry[where server=no_items_key and N=0 and max_retries=3 and backoff=3, OF a1 a2]
       fetch_page_empty_without_retry[where server=one_503_then_422 and N=1 and max_retries=3 and backoff=3, OF b1 b2]
  show ?thesis by (simp add: module_init_def)
qed

text \<open>
  C4, as the code has it: with the defaults \<open>max_retries = 3\<close> and \<open>backoff = 3\<close> the
  sleep after the \<open>k\<close>-th failed retryable attempt is \<open>3 ^ k\<close> seconds for
  \<open>k = 1, 2\<close>, and no sleep follows the third, last attempt: after \<open>N\<close> leading
  retryable failures the sleeps of the call are the first \<open>N\<close> of \<open>[3, 9]\<close>, and a
  run that exhausts all retries sleeps exactly \<open>[3, 9]\<close>.
\<close>

theorem fetch_page_default_sleeps:
  assumes "\<forall>i<N. retryable (server (length (requests w) + i) url)"
    and "N < 3 \<longrightarrow> \<not> retryable (server (length (requests w) + N) url)"
    and "N \<le> 3"
  shows "slept (snd (fetch_page server url 3 3 w)) = slept w @ take N [3, 9]"
proof (cases "N < 3")
  case True
  then have "N = 0 \<or> N = 1 \<or> N = 2" by auto
  with True assms(1,2) show ?thesis
    by (auto simp: fetch_page_settled upt_rec numeral_eq_Suc)
next
  case False
  with assms(3) have "N = 3" by simp
  with assms(1) show ?thesis
    by (simp add: fetch_page_exhausted upt_rec numeral_eq_Suc)
qed

theorem fetch_page_default_sleeps_witness:
  "slept (snd (fetch_page always_500 ''u'' 3 3 module_init)) = [3, 9]"
proof -
  have h1: "\<forall>i<3. retryable (always_500 (length (requests module_init) + i) ''u'')"
    by (simp add: always_500_def retryable_def module_init_def)
  have h2: "(3::nat) < 3 \<longrightarrow> \<not> retryable (always_500 (length (requests module_init) + 3) ''u'')"
    by simp
  have h3: "(3::nat) \<le> 3" by simp
  from fetch_page_default_sleeps[where server=always_500 and N=3, OF h1 h2 h3] show ?thesis by (simp add: module_init_def)
qed

text \<open>
  The schedule \<open>[3, 9, 27]\<close> is not what a run that exhausts its retries sleeps: the
  third failure raises before any sleep.
\<close>

theorem fetch_page_exhausted_sleeps_counterexample:
  "fst (fetch_page always_500 ''u'' 3 3 module_init) = Inl (HTTPError 500) \<and>
   slept (snd (fetch_page always_500 ''u'' 3 3 module_init)) \<noteq> [3, 9, 27]"
  by (simp add: fetch_page_def always_500_def module_init_def http_get_def sleep_def upt_rec)

section \<open>Properties of the date extractor\<close>

lemma requests_dict_copy [simp]: "requests (snd (dict_copy a w)) = requests w"
  and slept_dict_copy [simp]: "slept (snd (dict_copy a w)) = slept w"
  by (simp_all add: dict_copy_def)

lemma requests_setitem [simp]: "requests (setitem a k v w) = requests w"
  and slept_setitem [simp]: "slept (setitem a k v w) = slept w"
  by (simp_all add: setitem_def)

lemma fetch_one_date_loop_pages:
  assumes "[] \<in> set pages"
    and "\<forall>i<length pages. \<forall>u. \<not> retryable (server (length (requests w) + i) u) \<and>
           page_items (server (length (requests w) + i) u) = pages ! i"
  shows "sleeps_of (fetch_one_date_loop server qf page items w) =
         Some (Inr (items @ concat (takeWhile nonempty pages)),
               slept w @ replicate (length (takeWhile nonempty pages)) (21 / 10))"
  using assms
proof (induction pages arbitrary: page items w)
  case Nil
  then show ?case by simp
next
  case (Cons p ps)
  obtain a w1 where cp: "dict_copy DEFAULT_API_PARAMS w = (a, w1)" by (cases "dict_copy DEFAULT_API_PARAMS w")
  define w2 where "w2 = setitem a ''page'' (Scalar (PyInt page)) w1"
  define url where "url = api_query_builder BASE_URL (heap w2 ! qf) (heap w2 ! a)"
  have rq: "requests w2 = requests w" and sl: "slept w2 = slept w"
    using cp requests_dict_copy[of DEFAULT_API_PARAMS w] slept_dict_copy[of DEFAULT_API_PARAMS w]
    by (simp_all add: w2_def)
  from Cons.prems(2) have r0: "\<not> retryable (server (length (requests w2)) url)"
    and p0: "page_items (server (length (requests w2)) url) = p"
    unfolding rq by force+
  have fp: "fetch_page server url 3 3 w2 = (Inr p, w2\<lparr>requests := requests w2 @ [url]\<rparr>)"
    using fetch_page_settled[where N=0 and server=server and w=w2 and url=url and max_retries=3 and b=3] r0 p0
    by simp
  show ?case
  proof (cases "p = []")
    case True
    then show ?thesis
      by (subst fetch_one_date_loop.simps)
         (simp add: cp w2_def[symmetric] url_def[symmetric] fp sleeps_of_def nonempty_def Let_def sl)
  next
    case False
    let ?w4 = "sleep (21 / 10) (w2\<lparr>requests := requests w2 @ [url]\<rparr>)"
    have step: "fetch_one_date_loop server qf page items w =
                fetch_one_date_loop server qf (page + 1) (items @ p) ?w4"
      using False
      by (subst fetch_one_date_loop.simps)
         (simp add: cp w2_def[symmetric] url_def[symmetric] fp Let_def)
    have e: "[] \<in> set ps" using Cons.prems(1) False by auto
    have h: "\<forall>i<length ps. \<forall>u. \<not> retryable (server (length (requests ?w4) + i) u) \<and>
           page_items (server (length (requests ?w4) + i) u) = ps ! i"
    proof (intro allI impI)
      fix i u assume "i < length ps"
      then have "Suc i < length (p # ps)" by simp
      with Cons.prems(2) have "\<not> retryable (server (length (requests w) + Suc i) u) \<and>
           page_items (server (length (requests w) + Suc i) u) = (p # ps) ! Suc i" by blast
      then show "\<not> retryable (server (length (requests ?w4) + i) u) \<and>
           page_items (server (length (requests ?w4) + i) u) = ps ! i"
        by (simp add: sleep_def rq)
    qed
    from Cons.IH[OF e h, of "page + 1" "items @ p"] step False show ?thesis
      by (simp add: sleep_def sl nonempty_def replicate_append_same)
  qed
qed


text \<open>
  C3: for every date and every sequence of pages with an empty page in it, answered one
  page per request, \<open>fetch_one_date\<close> terminates and returns the concatenation, in page
  order, of the pages before the first empty one, and sleeps the inter-page delay of 2.1
  seconds exactly once per non-empty page. For two pages of 10 items and an empty third
  page these are the 20 items in order and two sleeps (the witness).
\<close>

theorem fetch_one_date_pages:
  assumes "[] \<in> set pages"
    and "\<forall>i<length pages. \<forall>u. \<not> retryable (server (length (requests w) + i) u) \<and>
           page_items (server (length (requests w) + i) u) = pages ! i"
  shows "sleeps_of (fetch_one_date server date_value w) =
         Some (Inr (concat (takeWhile nonempty pages)),
               slept w @ replicate (length (takeWhile nonempty pages)) (21 / 10))"
proof -
  obtain a w1 where cp: "dict_copy DEFAULT_Q_FILTERS w = (a, w1)"
    by (cases "dict_copy DEFAULT_Q_FILTERS w")
  define w2 where "w2 = setitem a ''created'' (Scalar (PyStr date_value)) w1"
  have rq: "requests w2 = requests w" and sl: "slept w2 = slept w"
    using cp requests_dict_copy[of DEFAULT_Q_FILTERS w] slept_dict_copy[of DEFAULT_Q_FILTERS w]
    by (simp_all add: w2_def)
  have "fetch_one_date server date_value w = fetch_one_date_loop server a 1 [] w2"
    by (simp add: fetch_one_date_def cp w2_def)
  moreover have "sleeps_of (fetch_one_date_loop server a 1 [] w2) =
         Some (Inr ([] @ concat (takeWhile nonempty pages)),
               slept w2 @ replicate (length (takeWhile nonempty pages)) (21 / 10))"
    using assms by (intro fetch_one_date_loop_pages) (simp_all add: rq)
  ultimately show ?thesis by (simp add: sl)
qed

theorem fetch_one_date_pages_witness:
  "sleeps_of (fetch_one_date three_pages ''2025-01-01'' module_init) =
   Some (Inr [1, 2, 3, 4, 5, 6, 7, 8, 9, 10, 11, 12, 13, 14, 15, 16, 17, 18, 19, 20],
         [21 / 10, 21 / 10])"
proof -
  let ?pages = "[[1, 2, 3, 4, 5, 6, 7, 8, 9, 10], [11, 12, 13, 14, 15, 16, 17, 18, 19, 20], []] :: nat list list"
  have h1: "[] \<in> set ?pages" by simp
  have h2: "\<forall>i<length ?pages. \<forall>u.
              \<not> retryable (three_pages (length (requests module_init) + i) u) \<and>
              page_items (three_pages (length (requests module_init) + i) u) = ?pages ! i"
    by (simp add: three_pages_def retryable_def module_init_def less_Suc_eq numeral_3_eq_3)
  from fetch_one_date_pages[where server=three_pages and pages="?pages" and w=module_init, OF h1 h2]
  show ?thesis by (simp add: nonempty_def module_init_def)
qed

lemma heap_fetch_attempts:
  "heap (snd (fetch_attempts server url m b attempts w)) = heap w"
proof (induction attempts arbitrary: w)
  case Nil
  then show ?case by simp
next
  case (Cons retry rest)
  show ?case
  proof (cases "server (length (requests w)) url")
    case NoResponse
    then show ?thesis by (simp add: http_get_def)
  next
    case (Response s body)
    then show ?thesis
      by (cases body) (auto simp: http_get_def sleep_def Cons.IH split: option.splits)
  qed
qed

lemma heap_fetch_page: "heap (snd (fetch_page server url m b w)) = heap w"
  by (simp add: fetch_page_def heap_fetch_attempts)

lemma fetch_one_date_loop_frame:
  assumes "fetch_one_date_loop server qf page items w = Some y"
  shows "\<forall>n\<le>length (heap w). take n (heap (snd y)) = take n (heap w)"
proof (rule fetch_one_date_loop.raw_induct
         [where P="\<lambda>server qf page items w y.
                     \<forall>n\<le>length (heap w). take n (heap (snd y)) = take n (heap w)",
          OF _ assms], goal_cases)
  case (1 loop server qf page items w y)
  let ?a = "length (heap w)"
  let ?w2 = "setitem ?a ''page'' (Scalar (PyInt page)) (snd (dict_copy DEFAULT_API_PARAMS w))"
  let ?url = "api_query_builder BASE_URL (heap ?w2 ! qf) (heap ?w2 ! ?a)"
  obtain r w3 where fp: "fetch_page server ?url 3 3 ?w2 = (r, w3)"
    by (cases "fetch_page server ?url 3 3 ?w2")
  then have h3: "heap w3 = heap ?w2" using heap_fetch_page[of server ?url 3 3 ?w2] by simp
  have h2: "\<forall>n\<le>?a. take n (heap ?w2) = take n (heap w)"
    by (simp add: setitem_def dict_copy_def)
  have len: "?a \<le> length (heap ?w2)" by (simp add: setitem_def dict_copy_def)
  show ?case
  proof (cases r)
    case (Inl e)
    with 1(2) fp have "y = (Inl e, w3)" by (simp add: dict_copy_def Let_def)
    with h2 h3 show ?thesis by simp
  next
    case (Inr page_items)
    show ?thesis
    proof (cases "page_items = []")
      case True
      with 1(2) fp Inr have "y = (Inr items, w3)" by (simp add: dict_copy_def Let_def)
      with h2 h3 show ?thesis by simp
    next
      case False
      with 1(2) fp Inr have "loop server qf (page + 1) (items @ page_items) (sleep (21 / 10) w3) = Some y"
        by (simp add: dict_copy_def Let_def)
      from 1(1)[OF this] have "\<forall>n\<le>length (heap w3). take n (heap (snd y)) = take n (heap w3)"
        by (simp add: sleep_def)
      with h2 h3 len show ?thesis by simp
    qed
  qed
qed

text \<open>
  C9: for every date and server, when \<open>fetch_one_date\<close> returns (with a list or with
  an exception), the two default dicts of the module are the objects they were before the
  call: no \<open>created\<close> or \<open>page\<close> key has reached them.
\<close>

theorem fetch_one_date_defaults_unchanged:
  assumes "fetch_one_date server date_value w = Some (r, w')"
    and "DEFAULT_Q_FILTERS < length (heap w)" and "DEFAULT_API_PARAMS < length (heap w)"
  shows "heap w' ! DEFAULT_Q_FILTERS = heap w ! DEFAULT_Q_FILTERS \<and>
         heap w' ! DEFAULT_API_PARAMS = heap w ! DEFAULT_API_PARAMS"
proof -
  let ?a = "length (heap w)"
  let ?w2 = "setitem ?a ''created'' (Scalar (PyStr date_value)) (snd (dict_copy DEFAULT_Q_FILTERS w))"
  from assms(1) have "fetch_one_date_loop server ?a 1 [] ?w2 = Some (r, w')"
    by (simp add: fetch_one_date_def dict_copy_def)
  from fetch_one_date_loop_frame[OF this]
  have "take ?a (heap w') = take ?a (heap ?w2)" by (simp add: setitem_def dict_copy_def)
  also have "\<dots> = heap w" by (simp add: setitem_def dict_copy_def)
  finally have "take ?a (heap w') = heap w" .
  then have "\<And>i. i < ?a \<Longrightarrow> heap w' ! i = heap w ! i"
    by (metis nth_take)
  with assms(2,3) show ?thesis by simp
qed


theorem fetch_one_date_defaults_unchanged_witness:
  "fetch_one_date three_pages ''2025-01-01'' module_init \<noteq> None \<and>
   heap (snd (the (fetch_one_date three_pages ''2025-01-01'' module_init))) ! DEFAULT_Q_FILTERS =
     DEFAULT_Q_FILTERS_init \<and>
   heap (snd (the (fetch_one_date three_pages ''2025-01-01'' module_init))) ! DEFAULT_API_PARAMS =
     DEFAULT_API_PARAMS_init"
proof -
  have ret: "fetch_one_date three_pages ''2025-01-01'' module_init \<noteq> None"
    by code_simp
  then obtain r w' where run: "fetch_one_date three_pages ''2025-01-01'' module_init = Some (r, w')"
    by fastforce
  have h1: "DEFAULT_Q_FILTERS < length (heap module_init)"
    and h2: "DEFAULT_API_PARAMS < length (heap module_init)"
    by (simp_all add: DEFAULT_Q_FILTERS_def DEFAULT_API_PARAMS_def module_init_def)
  from fetch_one_date_defaults_unchanged[OF run h1 h2] ret run show ?thesis
    by (simp add: DEFAULT_Q_FILTERS_def DEFAULT_API_PARAMS_def module_init_def)
qed

section \<open>Properties of the transformer\<close>

lemma zip3_filter:
  "map fst (filter (\<lambda>(r, a, d, t). P a d t)
      (zip rs (zip (map fa rs) (zip (map fd rs) (map ft rs))))) =
   filter (\<lambda>r. P (fa r) (fd r) (ft r)) rs"
  by (induction rs) simp_all

lemma select_active_eq:
  "select_active df =
     (if ''archived'' \<notin> set (columns df) then Inl (KeyError ''archived'')
      else if ''disabled'' \<notin> set (columns df) then Inl (KeyError ''disabled'')
      else if ''is_template'' \<notin> set (columns df) then Inl (KeyError ''is_template'')
      else Inr (df\<lparr>rows := filter (active df) (rows df)\<rparr>))"
proof -
  let ?fa = "\<lambda>r. cell_at r (index_of ''archived'' (columns df))"
  let ?fd = "\<lambda>r. cell_at r (index_of ''disabled'' (columns df))"
  let ?ft = "\<lambda>r. cell_at r (index_of ''is_template'' (columns df))"
  have "map fst (filter (\<lambda>(r, a, d, t). eq_False a \<and> eq_False d \<and> eq_False t)
          (zip (rows df) (zip (map ?fa (rows df)) (zip (map ?fd (rows df)) (map ?ft (rows df)))))) =
        filter (active df) (rows df)"
    using zip3_filter[of "\<lambda>a d t. eq_False a \<and> eq_False d \<and> eq_False t" "rows df" ?fa ?fd ?ft]
    by (simp add: active_def[abs_def])
  then show ?thesis
    by (simp add: select_active_def get_column_def)
qed

lemma active_rows_update [simp]: "active (df\<lparr>rows := rs\<rparr>) = active df"
  by (simp add: active_def[abs_def])

text \<open>
  C8, as the code has it: the row selection of \<open>filter_columns\<close> is idempotent. Every
  row it keeps has \<open>archived\<close>, \<open>disabled\<close> and \<open>is_template\<close> equal to
  \<open>False\<close>, so selecting again among the rows it kept keeps them all (and an error of
  the first selection stays that error).
\<close>

theorem select_active_idempotent:
  "and_then (select_active df) select_active = select_active df"
  by (simp add: select_active_eq)


lemma index_of_less: "c \<in> set cols \<Longrightarrow> index_of c cols < length cols"
  by (induction cols) auto




lemma keep_first_by_subset: "set (keep_first_by key seen rs) \<subseteq> set rs"
  by (induction rs arbitrary: seen) auto






















lemma example_frame_not_empty: "\<not> empty_frame \<lparr>columns = example_columns, rows = r # rs\<rparr>"
  by (simp add: empty_frame_def example_columns_def)

lemma size_null_filtered: "filter_columns batch_size_null =
   Inr \<lparr>columns = example_columns, rows = [example_row 2 ''b'' JNull JNull]\<rparr>"
  by code_simp

lemma size_null_handled:
  "handle_nulls_and_dupes \<lparr>columns = example_columns, rows = [example_row 2 ''b'' JNull JNull]\<rparr> =
   Inr \<lparr>columns = example_columns, rows = [example_row 2 ''b'' JNull (JStr ''Unknown'')]\<rparr>"
  by code_simp

lemma size_null_formatted:
  "datetime_columns_formatter keep_cells
     \<lparr>columns = example_columns, rows = [example_row 2 ''b'' JNull (JStr ''Unknown'')]\<rparr> =
   Inr \<lparr>columns = example_columns, rows = [example_row 2 ''b'' JNull (JStr ''Unknown'')]\<rparr>"
  by code_simp

lemma size_null_column:
  "get_column ''size'' \<lparr>columns = example_columns, rows = [example_row 2 ''b'' JNull (JStr ''Unknown'')]\<rparr> =
   Inr [JNull]"
  by code_simp

text \<open>
  C7 at a batch in which no live repository has a size: both backfills of
  \<open>handle_nulls_and_dupes\<close> compute the mean of no value, and the \<open>size\<close> of the row
  that \<open>transform\<close> returns is still missing.
\<close>

theorem transform_size_stays_null:
  "and_then (transform keep_cells batch_size_null) (get_column ''size'') = Inr [JNull]"
  by (simp add: transform_def size_null_filtered size_null_handled size_null_formatted
        size_null_column example_frame_not_empty)

lemma duplicate_filtered: "filter_columns batch_duplicate =
   Inr \<lparr>columns = example_columns,
        rows = [example_row 1 ''a'' (JNum 5) JNull, example_row 1 ''b'' (JNum 6) JNull,
                example_row 2 ''c'' (JNum 7) JNull]\<rparr>"
  by code_simp

lemma duplicate_filtered_again:
  "filter_frame required_cols \<lparr>columns = example_columns,
        rows = [example_row 1 ''a'' (JNum 5) JNull, example_row 1 ''b'' (JNum 6) JNull,
                example_row 2 ''c'' (JNum 7) JNull]\<rparr> = Inl (KeyError ''archived'')"
  by code_simp

text \<open>
  \<open>filter_columns\<close> does not apply to its own output: the projection to
  \<open>required_cols\<close> has removed the column \<open>archived\<close> that the mask reads.
\<close>

theorem filter_columns_twice_counterexample:
  "filter_columns batch_duplicate \<noteq> Inl (KeyError ''archived'') \<and>
   and_then (filter_columns batch_duplicate) (filter_frame required_cols) = Inl (KeyError ''archived'')"
  by (simp add: duplicate_filtered duplicate_filtered_again)

lemma duplicate_handled: "handle_nulls_and_dupes frame_duplicate = Inr frame_deduplicated"
  by code_simp

lemma duplicate_formatted:
  "datetime_columns_formatter keep_cells frame_deduplicated = Inr frame_deduplicated"
  by code_simp

lemma duplicate_transformed: "transform keep_cells batch_duplicate = Inr frame_deduplicated"
proof -
  have f: "filter_columns batch_duplicate = Inr frame_duplicate"
    using duplicate_filtered by (simp add: frame_duplicate_def)
  have "\<not> empty_frame frame_duplicate"
    by (simp add: frame_duplicate_def example_frame_not_empty)
  then show ?thesis
    by (simp add: transform_def f duplicate_handled duplicate_formatted)
qed








section \<open>Properties of the orchestrator\<close>

lemma keep_first_by_Nil_iff: "keep_first_by key [] xs = [] \<longleftrightarrow> xs = []"
  by (cases xs) simp_all

lemma pd_concat_not_empty:
  assumes "frames \<noteq> []" and "\<forall>df \<in> set frames. \<not> empty_frame df"
  shows "\<not> empty_frame (pd_concat frames)"
proof -
  from assms obtain df dfs where f: "frames = df # dfs" by (cases frames) auto
  with assms(2) have "rows df \<noteq> []" and "columns df \<noteq> []" by (simp_all add: empty_frame_def)
  then show ?thesis
    by (auto simp: pd_concat_def empty_frame_def Let_def f keep_first_by_Nil_iff)
qed

lemma process_dates_fragments:
  assumes "extract_dates server ds w = Some (Inr batches, w')"
    and "\<forall>batch \<in> set batches. nonempty batch \<longrightarrow> \<not> isl (transform to_datetime batch)"
  shows "process_dates server to_datetime ds acc w =
         Some (Inr (acc @ fragments to_datetime batches), w')"
  using assms
proof (induction ds arbitrary: acc w batches)
  case Nil
  then show ?case by (simp add: fragments_def)
next
  case (Cons d ds)
  from Cons.prems(1) obtain batch w1 rest where
    f: "fetch_one_date server d w = Some (Inr batch, w1)"
    and e: "extract_dates server ds w1 = Some (Inr rest, w')"
    and b: "batches = batch # rest"
    by (auto split: option.splits sum.splits)
  from Cons.prems(2) b have tr: "\<forall>batch \<in> set rest. nonempty batch \<longrightarrow> \<not> isl (transform to_datetime batch)"
    by simp
  note IH = Cons.IH[OF e tr]
  show ?case
  proof (cases "batch = []")
    case True
    with f b IH show ?thesis by (simp add: fragments_def nonempty_def)
  next
    case False
    with Cons.prems(2) b obtain daily_df where t: "transform to_datetime batch = Inr daily_df"
      by (cases "transform to_datetime batch") (auto simp: nonempty_def)
    with f b False IH show ?thesis by (simp add: fragments_def nonempty_def)
  qed
qed

text \<open>
  C6, as the code has it: for every date list and database, when the extraction of every
  date returns and the transformer raises on no non-empty batch, \<open>full_etl\<close> finishes
  and calls the Loader exactly once, with the concatenation of the non-empty cleaned
  fragments in date order (then page order, then item order), if there is such a fragment,
  and not at all if there is none. The transformer is not asked about an empty batch:
  nothing is assumed of it there, and it would raise.
\<close>

theorem full_etl_loads_once:
  assumes "map_option fst (extract_dates server fetch_dates w) = Some (Inr batches)"
    and "\<forall>batch \<in> set batches. nonempty batch \<longrightarrow> \<not> isl (transform to_datetime batch)"
  shows "loads_of (full_etl server to_datetime engine fetch_dates w d) =
         Some (loader_calls d @
               (if fragments to_datetime batches = [] then []
                else [pd_concat (fragments to_datetime batches)]))"
proof -
  from assms(1) obtain w' where e: "extract_dates server fetch_dates w = Some (Inr batches, w')"
    by (cases "extract_dates server fetch_dates w") auto
  have p: "process_dates server to_datetime fetch_dates [] w =
           Some (Inr (fragments to_datetime batches), w')"
    using process_dates_fragments[OF e assms(2), of "[]"] by simp
  show ?thesis
  proof (cases "fetch_dates = []")
    case True
    with e show ?thesis by (simp add: full_etl_def loads_of_def fragments_def)
  next
    case False
    show ?thesis
    proof (cases "fragments to_datetime batches = []")
      case True
      with False p show ?thesis by (simp add: full_etl_def loads_of_def)
    next
      case nonempty: False
      have "\<forall>df \<in> set (fragments to_datetime batches). \<not> empty_frame df"
        by (simp add: fragments_def)
      with nonempty have "\<not> empty_frame (pd_concat (fragments to_datetime batches))"
        by (rule pd_concat_not_empty)
      with False nonempty p show ?thesis
        by (simp add: full_etl_def loads_of_def load_data_to_db_def Let_def)
    qed
  qed
qed


lemma three_filtered: "filter_columns batch_three =
   Inr \<lparr>columns = example_columns,
        rows = [example_row 1 ''a'' (JNum 5) JNull, example_row 3 ''c'' (JNum 7) JNull]\<rparr>"
  by code_simp

lemma three_handled:
  "handle_nulls_and_dupes \<lparr>columns = example_columns,
        rows = [example_row 1 ''a'' (JNum 5) JNull, example_row 3 ''c'' (JNum 7) JNull]\<rparr> =
   Inr frame_three"
  by code_simp

lemma three_formatted: "datetime_columns_formatter keep_cells frame_three = Inr frame_three"
  by code_simp

lemma three_transformed: "transform keep_cells batch_three = Inr frame_three"
  by (simp add: transform_def three_filtered three_handled three_formatted example_frame_not_empty)

lemma three_not_empty: "\<not> empty_frame frame_three" "batch_three \<noteq> []"
  by (simp_all add: frame_three_def example_frame_not_empty batch_three_def)

lemma full_etl_aborted:
  assumes "map_option fst (process_dates server to_datetime fetch_dates [] w) = Some (Inl e)"
  shows "loads_of (full_etl server to_datetime engine fetch_dates w d) = Some (loader_calls d)"
proof -
  from assms obtain w' where "process_dates server to_datetime fetch_dates [] w = Some (Inl e, w')"
    by (cases "process_dates server to_datetime fetch_dates [] w") auto
  then show ?thesis by (simp add: full_etl_def loads_of_def)
qed

lemma two_days_not_empty: "\<not> empty_frame frame_deduplicated" "batch_duplicate \<noteq> []"
  by (simp_all add: frame_deduplicated_def example_frame_not_empty batch_duplicate_def)

lemma two_days_concat: "pd_concat [frame_three, frame_deduplicated] = frame_two_days"
  by code_simp

lemma two_days_extracted:
  "map_option fst (extract_dates two_days [''2025-01-01'', ''2025-01-02'', ''2025-01-03'']
                     module_init) =
   Some (Inr [batch_three, batch_duplicate, []])"
  by code_simp

theorem full_etl_loads_once_witness:
  "loads_of (full_etl two_days keep_cells accept_all
               [''2025-01-01'', ''2025-01-02'', ''2025-01-03''] module_init empty_db) =
   Some [frame_two_days]"
proof -
  have h: "\<forall>batch \<in> set [batch_three, batch_duplicate, []].
             nonempty batch \<longrightarrow> \<not> isl (transform keep_cells batch)"
    by (simp add: three_transformed duplicate_transformed nonempty_def)
  have fr: "fragments keep_cells [batch_three, batch_duplicate, []] =
            [frame_three, frame_deduplicated]"
    by (simp add: fragments_def nonempty_def three_transformed duplicate_transformed
          three_not_empty two_days_not_empty)
  from full_etl_loads_once[OF two_days_extracted h, of accept_all empty_db] show ?thesis
    by (simp add: fr two_days_concat empty_db_def)
qed

lemma aborted_first_date:
  "map_option fst (fetch_one_date page_then_500 ''2025-01-01'' module_init) = Some (Inr batch_three)"
  by code_simp

lemma aborted_run:
  "map_option fst (process_dates page_then_500 keep_cells [''2025-01-01'', ''2025-01-02''] [] module_init)
     = Some (Inl (HTTPError 500))"
  by code_simp

text \<open>
  A run in which the first date yields a non-empty cleaned fragment and the extraction of
  the second date raises after its retries: the exception leaves \<open>full_etl\<close> and the
  Loader is never called.
\<close>

theorem full_etl_aborted_counterexample:
  "map_option fst (fetch_one_date page_then_500 ''2025-01-01'' module_init) = Some (Inr batch_three) \<and>
   transform keep_cells batch_three = Inr frame_three \<and>
   \<not> empty_frame frame_three \<and>
   loads_of (full_etl page_then_500 keep_cells accept_all [''2025-01-01'', ''2025-01-02'']
               module_init empty_db) = Some []"
  using full_etl_aborted[OF aborted_run, of accept_all empty_db]
  by (simp add: aborted_first_date three_transformed three_not_empty empty_db_def)

end
